theory Spec2Isabelle
  imports Main
begin

section \<open>Data model\<close>

text \<open>
  A \<^verbatim>\<open>std::string\<close> is a list of bytes (\<^typ>\<open>string\<close>), \<^verbatim>\<open>size()\<close> is
  \<^const>\<open>length\<close>. Values of type \<^verbatim>\<open>size_t\<close> are natural numbers and values of type
  \<^verbatim>\<open>int\<close> are integers: every offset computed below is bounded by the size of a
  string held in memory plus the sizes of node surfaces, and texts, columns and chunk
  counts are taken to stay below \<open>2^31\<close>, so no addition wraps. Members that the source
  spells with a trailing underscore (\<^verbatim>\<open>mecab_tagger_\<close>) lose it here.
\<close>

text \<open>\<^verbatim>\<open>s.c_str()\<close> read as a C string: the bytes before the first NUL.\<close>

definition c_str :: "string \<Rightarrow> string" where
  "c_str s = takeWhile (\<lambda>c. c \<noteq> CHR 0x00) s"

text \<open>\<^verbatim>\<open>s.substr(pos, n)\<close>; the source calls it only with \<open>pos < s.size()\<close>.\<close>

definition substr :: "string \<Rightarrow> nat \<Rightarrow> nat \<Rightarrow> string" where
  "substr s pos n = take n (drop pos s)"

subsection \<open>The primary engine (mecab.h)\<close>

datatype node_stat =
  MECAB_NOR_NODE | MECAB_UNK_NODE | MECAB_BOS_NODE | MECAB_EOS_NODE | MECAB_EON_NODE

text \<open>
  A \<^verbatim>\<open>MeCab::Node\<close>: \<open>surface\<close> is the memory \<^verbatim>\<open>n->surface\<close> points to, of which the
  node owns the first \<open>node_length\<close> bytes (\<^verbatim>\<open>n->length\<close>); \<open>feature\<close> is the C string
  \<^verbatim>\<open>n->feature\<close>, \<open>None\<close> for a null pointer. The \<^verbatim>\<open>next\<close> chain of a parse result is a
  list of nodes.
\<close>

record Node =
  stat :: node_stat
  surface :: string
  node_length :: nat
  feature :: "string option"

text \<open>
  A \<^verbatim>\<open>MeCab::Tagger\<close> is its \<^verbatim>\<open>parseToNode\<close>: a deterministic map from the C string it
  is given to the node chain, \<open>None\<close> for a null result.
\<close>

record Tagger =
  parseToNode :: "string \<Rightarrow> Node list option"

subsection \<open>The secondary engine (cabocha.h)\<close>

record 's cabocha_chunk_t =
  link :: int
  score :: 's
  token_pos :: nat
  token_size :: nat

record cabocha_token_t =
  tok_surface :: "string option"

text \<open>
  A \<^verbatim>\<open>cabocha_tree_t\<close>: \<^verbatim>\<open>cabocha_tree_chunk_size\<close> and \<^verbatim>\<open>cabocha_tree_token_size\<close> are
  the lengths of the two lists, \<^verbatim>\<open>cabocha_tree_chunk(tree, i)\<close> is \<open>chunks ! i\<close> and may be
  a null pointer (\<open>None\<close>), likewise for tokens.
\<close>

record 's cabocha_tree_t =
  chunks :: "'s cabocha_chunk_t option list"
  tokens :: "cabocha_token_t option list"

record 's cabocha_t =
  cabocha_sparse_totree :: "string \<Rightarrow> 's cabocha_tree_t option"

subsection \<open>Results\<close>

record Position =
  line :: int
  character :: int

record ('ty, 'md) TokenData =
  surface :: string
  line :: int
  startChar :: int
  endChar :: int
  feature :: string
  baseForm :: string
  reading :: string
  pronunciation :: string
  tokenType :: 'ty
  tokenModifiers :: 'md

record 's DependencyInfo =
  chunkId :: int
  headId :: int
  score :: 's
  text_dep :: string

subsection \<open>Configuration and discovery\<close>

record MeCabConfig =
  dicPath :: string
  charset :: string

record AnalysisConfig =
  grammarCheck :: bool

record MoZukuConfig =
  mecab :: MeCabConfig
  analysis :: AnalysisConfig

record SystemLibInfo =
  isAvailable :: bool
  dicPath :: string
  charset :: string

text \<open>A default-constructed \<^verbatim>\<open>SystemLibInfo\<close>: not available, both strings empty.\<close>

definition SystemLibInfo_default :: SystemLibInfo where
  "SystemLibInfo_default = \<lparr>isAvailable = False, dicPath = [], charset = []\<rparr>"

text \<open>
  What the process sees of its surroundings: the line \<^verbatim>\<open>fgets\<close> reads from
  \<^verbatim>\<open>popen("mecab-config --dicdir 2>/dev/null")\<close> (\<open>None\<close> when the pipe cannot be opened
  or gives no line), the lines \<^verbatim>\<open>std::getline\<close> reads from a file (\<open>None\<close> when it cannot
  be opened), \<^verbatim>\<open>MeCab::createTagger\<close> on an argument C string (\<open>None\<close> for a null
  result), and whether \<^verbatim>\<open>getenv("MOZUKU_DEBUG")\<close> is non-null.
\<close>

record World =
  mecab_config_dicdir :: "string option"
  ifstream_lines :: "string \<Rightarrow> string list option"
  createTagger :: "string \<Rightarrow> Tagger option"
  getenv_MOZUKU_DEBUG :: bool

subsection \<open>Collaborators declared outside the two source files\<close>

text \<open>
  \<^verbatim>\<open>text::TextProcessor::sanitizeUTF8\<close>, \<^verbatim>\<open>encoding::utf8ToSystem\<close>,
  \<^verbatim>\<open>encoding::systemToUtf8\<close>, \<^verbatim>\<open>computeLineStarts\<close>, \<^verbatim>\<open>byteOffsetToPosition\<close>,
  \<^verbatim>\<open>utf8ToUtf16Length\<close> and the three \<^verbatim>\<open>pos::POSAnalyzer\<close> functions are declared in
  headers and defined in files other than the two analysed here. They are parameters of
  the model: arbitrary total functions of their arguments. \<open>parseFeatureDetails\<close> returns
  the three strings it writes through its reference parameters.
\<close>

record ('ty, 'md) Collab =
  sanitizeUTF8 :: "string \<Rightarrow> string"
  utf8ToSystem :: "string \<Rightarrow> string \<Rightarrow> string"
  systemToUtf8 :: "string \<Rightarrow> string \<Rightarrow> string"
  computeLineStarts :: "string \<Rightarrow> nat list"
  byteOffsetToPosition :: "string \<Rightarrow> nat list \<Rightarrow> nat \<Rightarrow> Position"
  utf8ToUtf16Length :: "string \<Rightarrow> nat"
  parseFeatureDetails :: "string \<Rightarrow> string \<Rightarrow> bool \<Rightarrow> string \<times> string \<times> string"
  mapPosToType :: "string \<Rightarrow> 'ty"
  computeModifiers :: "string \<Rightarrow> nat \<Rightarrow> nat \<Rightarrow> string \<Rightarrow> 'md"

subsection \<open>Objects\<close>

record 's MeCabManager =
  mecab_tagger :: "Tagger option"
  cabocha_parser :: "'s cabocha_t option"
  system_charset :: string
  cabocha_available :: bool
  enable_cabocha :: bool

record 's Analyzer =
  config :: MoZukuConfig
  mecab_manager :: "'s MeCabManager"
  system_charset :: string

text \<open>
  The function-local statics of \<^verbatim>\<open>isDebugEnabled\<close>, and the lines \<^verbatim>\<open>analyzeText\<close>
  writes to \<^verbatim>\<open>std::cerr\<close>.
\<close>

record DebugFlag =
  initialized :: bool
  debug :: bool

datatype LogLine =
  DEBUG_Analyzing_text_of_length nat
  | ERROR_MeCab_tagger_not_available
  | ERROR_MeCab_parsing_failed
  | DEBUG_Analysis_completed nat

section \<open>analyzer.cpp\<close>

definition isDebugEnabled :: "World \<Rightarrow> DebugFlag \<Rightarrow> bool \<times> DebugFlag" where
  "isDebugEnabled W d =
     (if \<not> initialized d
      then (getenv_MOZUKU_DEBUG W, \<lparr>initialized = True, debug = getenv_MOZUKU_DEBUG W\<rparr>)
      else (debug d, d))"

text \<open>
  Modelled from the spec: the accessors \<^verbatim>\<open>getMeCabTagger\<close>, \<^verbatim>\<open>getCaboChaParser\<close>,
  \<^verbatim>\<open>getSystemCharset\<close> and \<^verbatim>\<open>isCaboChaAvailable\<close> of \<^verbatim>\<open>MeCabManager\<close> are defined
  in mecab_manager.hpp, which is not among the sources. The spec's Engine Manager
  exposes the charset, the dependency capability and the two engine handles, so each
  accessor returns the member it is named after.
\<close>

definition getMeCabTagger :: "'s MeCabManager \<Rightarrow> Tagger option" where
  "getMeCabTagger M = mecab_tagger M"

definition getCaboChaParser :: "'s MeCabManager \<Rightarrow> 's cabocha_t option" where
  "getCaboChaParser M = cabocha_parser M"

definition getSystemCharset :: "'s MeCabManager \<Rightarrow> string" where
  "getSystemCharset M = MeCabManager.system_charset M"

definition isCaboChaAvailable :: "'s MeCabManager \<Rightarrow> bool" where
  "isCaboChaAvailable M = cabocha_available M"

text \<open>
  The realignment scan of \<^verbatim>\<open>analyzeText\<close> (the inner \<^verbatim>\<open>while\<close>): from the cursor,
  step one byte at a time until the surface is found at the cursor or the cursor is no
  longer inside the text; the result is the cursor after the loop.
\<close>

function realign :: "string \<Rightarrow> string \<Rightarrow> nat \<Rightarrow> nat" where
  "realign cleanText surf currentBytePos =
     (if currentBytePos < length cleanText
      then (let remainingBytes = length cleanText - currentBytePos in
            if remainingBytes \<ge> length surf \<and>
               substr cleanText currentBytePos (length surf) = surf
            then currentBytePos
            else realign cleanText surf (currentBytePos + 1))
      else currentBytePos)"
  by pat_completeness auto
termination
  by (relation "measure (\<lambda>(t, s, p). length t - p)") auto

declare realign.simps [simp del]

text \<open>The body of the node loop after the scan: the token built at the matched offset.\<close>

definition makeToken ::
  "('ty, 'md) Collab \<Rightarrow> string \<Rightarrow> string \<Rightarrow> nat list \<Rightarrow> nat \<Rightarrow> string \<Rightarrow> Node
     \<Rightarrow> ('ty, 'md) TokenData" where
  "makeToken X cs cleanText lineStarts currentBytePos surf n =
     (let pos = byteOffsetToPosition X cleanText lineStarts currentBytePos;
          systemFeature = (case Node.feature n of Some f \<Rightarrow> f | None \<Rightarrow> []);
          feat = systemToUtf8 X systemFeature cs;
          (bf, rd, pr) = parseFeatureDetails X (c_str feat) ''UTF-8'' True
      in \<lparr>surface = surf,
          line = Position.line pos,
          startChar = character pos,
          endChar = character pos + int (utf8ToUtf16Length X surf),
          feature = feat,
          baseForm = bf,
          reading = rd,
          pronunciation = pr,
          tokenType = mapPosToType X (c_str feat),
          tokenModifiers = computeModifiers X cleanText currentBytePos (length surf) (c_str feat)\<rparr>)"

text \<open>
  The node loop of \<^verbatim>\<open>analyzeText\<close>. Each token pushed is paired with the value of
  \<^verbatim>\<open>currentBytePos\<close> at which it was matched (the offset handed to
  \<^verbatim>\<open>byteOffsetToPosition\<close>); the tokens alone are the second components.
\<close>

fun analyzeNodes ::
  "('ty, 'md) Collab \<Rightarrow> string \<Rightarrow> string \<Rightarrow> nat list \<Rightarrow> nat \<Rightarrow> Node list
     \<Rightarrow> (nat \<times> ('ty, 'md) TokenData) list" where
  "analyzeNodes X cs cleanText lineStarts currentBytePos [] = []"
| "analyzeNodes X cs cleanText lineStarts currentBytePos (n # ns) =
     (if stat n = MECAB_BOS_NODE \<or> stat n = MECAB_EOS_NODE
      then analyzeNodes X cs cleanText lineStarts currentBytePos ns
      else let surfaceLen = node_length n;
               systemSurface = take surfaceLen (Node.surface n);
               surf = systemToUtf8 X systemSurface cs
           in if surf = []
              then analyzeNodes X cs cleanText lineStarts currentBytePos ns
              else let p = realign cleanText surf currentBytePos
                   in (p, makeToken X cs cleanText lineStarts p surf n)
                      # analyzeNodes X cs cleanText lineStarts (p + length surf) ns)"

text \<open>
  \<^verbatim>\<open>Analyzer::analyzeText\<close>, with the matched offsets kept beside the tokens. The result
  is the token vector, the statics of \<^verbatim>\<open>isDebugEnabled\<close> after the call and the lines
  written to \<^verbatim>\<open>std::cerr\<close>. The analyzer object is not modified.
\<close>

definition analyzeText_trace ::
  "('ty, 'md) Collab \<Rightarrow> World \<Rightarrow> 's Analyzer \<Rightarrow> string \<Rightarrow> DebugFlag
     \<Rightarrow> (nat \<times> ('ty, 'md) TokenData) list \<times> DebugFlag \<times> LogLine list" where
  "analyzeText_trace X W A txt d =
     (if txt = [] then ([], d, [])
      else
        let (dbg1, d1) = isDebugEnabled W d;
            log1 = (if dbg1 then [DEBUG_Analyzing_text_of_length (length txt)] else []);
            cleanText = sanitizeUTF8 X txt;
            systemText = utf8ToSystem X cleanText (Analyzer.system_charset A)
        in case getMeCabTagger (mecab_manager A) of
             None \<Rightarrow> ([], d1, log1 @ [ERROR_MeCab_tagger_not_available])
           | Some tagger \<Rightarrow>
               (case parseToNode tagger (c_str systemText) of
                  None \<Rightarrow> ([], d1, log1 @ [ERROR_MeCab_parsing_failed])
                | Some node \<Rightarrow>
                    let lineStarts = computeLineStarts X cleanText;
                        toks = analyzeNodes X (Analyzer.system_charset A) cleanText lineStarts 0 node;
                        (dbg2, d2) = isDebugEnabled W d1;
                        log2 = (if dbg2 then [DEBUG_Analysis_completed (length toks)] else [])
                    in (toks, d2, log1 @ log2)))"

definition analyzeText ::
  "('ty, 'md) Collab \<Rightarrow> World \<Rightarrow> 's Analyzer \<Rightarrow> string \<Rightarrow> DebugFlag
     \<Rightarrow> ('ty, 'md) TokenData list \<times> DebugFlag \<times> LogLine list" where
  "analyzeText X W A txt d =
     (case analyzeText_trace X W A txt d of (toks, d', lg) \<Rightarrow> (map snd toks, d', lg))"

text \<open>
  \<^verbatim>\<open>Analyzer::analyzeDependencies\<close>. The first argument says whether the build defines
  \<^verbatim>\<open>MOZUKU_ENABLE_CABOCHA\<close>; without it the function is the one-line \<^verbatim>\<open>return {}\<close>.
  The inner loop concatenates the decoded surfaces of the chunk's tokens;
  \<open>chunk_record\<close> is the record built for chunk \<open>i\<close>; the outer loop walks the chunk
  indices and skips null chunks. Diagnostic output written under
  \<^verbatim>\<open>isDebugEnabled()\<close> is left out here and in mecab_manager.cpp: no branch depends
  on it.
\<close>

function chunkText_loop ::
  "('ty, 'md) Collab \<Rightarrow> string \<Rightarrow> 's cabocha_tree_t \<Rightarrow> nat \<Rightarrow> nat \<Rightarrow> string" where
  "chunkText_loop X cs tree endToken j =
     (if j < endToken \<and> j < length (tokens tree)
      then (case tokens tree ! j of
              Some token \<Rightarrow>
                (case tok_surface token of
                   Some s \<Rightarrow> systemToUtf8 X s cs
                 | None \<Rightarrow> [])
            | None \<Rightarrow> [])
           @ chunkText_loop X cs tree endToken (j + 1)
      else [])"
  by pat_completeness auto
termination
  by (relation "measure (\<lambda>(X, cs, tree, e, j). length (tokens tree) - j)") auto

declare chunkText_loop.simps [simp del]

definition chunk_record ::
  "('ty, 'md) Collab \<Rightarrow> string \<Rightarrow> 's cabocha_tree_t \<Rightarrow> nat \<Rightarrow> 's cabocha_chunk_t
     \<Rightarrow> 's DependencyInfo" where
  "chunk_record X cs tree i chunk =
     (let startToken = token_pos chunk;
          endToken = startToken + token_size chunk
      in \<lparr>chunkId = int i,
          headId = link chunk,
          score = cabocha_chunk_t.score chunk,
          text_dep = chunkText_loop X cs tree endToken startToken\<rparr>)"

function chunk_loop ::
  "('ty, 'md) Collab \<Rightarrow> string \<Rightarrow> 's cabocha_tree_t \<Rightarrow> nat \<Rightarrow> 's DependencyInfo list" where
  "chunk_loop X cs tree i =
     (if i < length (chunks tree)
      then (case chunks tree ! i of
              None \<Rightarrow> chunk_loop X cs tree (i + 1)
            | Some chunk \<Rightarrow> chunk_record X cs tree i chunk # chunk_loop X cs tree (i + 1))
      else [])"
  by pat_completeness auto
termination
  by (relation "measure (\<lambda>(X, cs, tree, i). length (chunks tree) - i)") auto

declare chunk_loop.simps [simp del]

definition analyzeDependencies ::
  "bool \<Rightarrow> ('ty, 'md) Collab \<Rightarrow> 's Analyzer \<Rightarrow> string \<Rightarrow> 's DependencyInfo list" where
  "analyzeDependencies MOZUKU_ENABLE_CABOCHA X A txt =
     (if \<not> MOZUKU_ENABLE_CABOCHA then []
      else if \<not> isCaboChaAvailable (mecab_manager A) then []
      else
        let cleanText = sanitizeUTF8 X txt;
            systemText = utf8ToSystem X cleanText (Analyzer.system_charset A)
        in case getCaboChaParser (mecab_manager A) of
             None \<Rightarrow> []
           | Some parser \<Rightarrow>
               (case cabocha_sparse_totree parser (c_str systemText) of
                  None \<Rightarrow> []
                | Some tree \<Rightarrow> chunk_loop X (Analyzer.system_charset A) tree 0))"

definition isInitialized :: "'s Analyzer \<Rightarrow> bool" where
  "isInitialized A = (getMeCabTagger (mecab_manager A) \<noteq> None)"

text \<open>
  \<^verbatim>\<open>computeByteOffset\<close>: the byte offset of a UTF-16 column on a line. The loop reads
  the lead byte as \<^verbatim>\<open>unsigned char\<close>, steps over \<open>seqLen\<close> bytes and counts
  \<open>utf16Units\<close> code units. A negative line argument indexes \<^verbatim>\<open>lineStarts\<close> out of range,
  which is \<open>None\<close> here.
\<close>

definition seqLen :: "nat \<Rightarrow> nat" where
  "seqLen c = (if c \<ge> 0xF0 then 4 else if c \<ge> 0xE0 then 3 else if c \<ge> 0xC0 then 2 else 1)"

definition utf16Units :: "nat \<Rightarrow> int" where
  "utf16Units n = (if n = 4 then 2 else 1)"

function computeByteOffset_loop :: "string \<Rightarrow> int \<Rightarrow> nat \<Rightarrow> int \<Rightarrow> nat" where
  "computeByteOffset_loop txt characterArg bytePos utf16Pos =
     (if bytePos < length txt \<and> utf16Pos < characterArg \<and> txt ! bytePos \<noteq> CHR 0x0A
      then (let c = (of_char (txt ! bytePos) :: nat)
            in computeByteOffset_loop txt characterArg
                 (bytePos + seqLen c) (utf16Pos + utf16Units (seqLen c)))
      else bytePos)"
  by pat_completeness auto
termination
  by (relation "measure (\<lambda>(t, ch, b, u). length t - b)") (auto simp: seqLen_def)

declare computeByteOffset_loop.simps [simp del]

definition computeByteOffset ::
  "('ty, 'md) Collab \<Rightarrow> string \<Rightarrow> int \<Rightarrow> int \<Rightarrow> nat option" where
  "computeByteOffset X txt lineArg characterArg =
     (let lineStarts = computeLineStarts X txt in
      if lineArg \<ge> int (length lineStarts) then Some (length txt)
      else if lineArg < 0 then None
      else Some (computeByteOffset_loop txt characterArg (lineStarts ! nat lineArg) 0))"

section \<open>mecab_manager.cpp\<close>

text \<open>The literal \<^verbatim>\<open>testUtf8\<close>: two characters, U+8AA4 and U+89E3, six bytes of UTF-8.\<close>

definition testUtf8 :: string where
  "testUtf8 = [CHR 0xE8, CHR 0xAA, CHR 0xA4, CHR 0xE8, CHR 0xA7, CHR 0xA3]"

text \<open>
  The node loop shared, statement for statement, by \<^verbatim>\<open>testMeCabCharset\<close> and the probe
  in \<^verbatim>\<open>detectSystemMeCab\<close>: true as soon as a node that is neither BOS nor EOS has the
  test text as its surface.
\<close>

fun utf8Works :: "Node list \<Rightarrow> bool" where
  "utf8Works [] = False"
| "utf8Works (n # ns) =
     (if stat n = MECAB_BOS_NODE \<or> stat n = MECAB_EOS_NODE then utf8Works ns
      else let len = node_length n;
               surf = take len (Node.surface n)
           in if surf = testUtf8 \<and> length surf = 6 then True else utf8Works ns)"

definition nodes_of :: "Node list option \<Rightarrow> Node list" where
  "nodes_of r = (case r of None \<Rightarrow> [] | Some ns \<Rightarrow> ns)"

definition testMeCabCharset :: "Tagger option \<Rightarrow> string \<Rightarrow> string" where
  "testMeCabCharset tagger originalCharset =
     (case tagger of
        None \<Rightarrow> originalCharset
      | Some t \<Rightarrow>
          if originalCharset = ''UTF-8'' then originalCharset
          else if utf8Works (nodes_of (parseToNode t testUtf8)) then ''UTF-8''
          else originalCharset)"

text \<open>
  Reading the charset from the lines of \<^verbatim>\<open>dicrc\<close>: the first line that contains
  \<^verbatim>\<open>config-charset\<close> and an \<^verbatim>\<open>=\<close> gives the value, trimmed of blanks and tabs on both
  sides by the two \<^verbatim>\<open>erase\<close> calls.
\<close>

fun str_contains :: "string \<Rightarrow> string \<Rightarrow> bool" where
  "str_contains [] pat = (pat = [])"
| "str_contains (c # cs) pat = (take (length pat) (c # cs) = pat \<or> str_contains cs pat)"

definition is_blank :: "char \<Rightarrow> bool" where
  "is_blank c = (c = CHR '' '' \<or> c = CHR 0x09)"

definition trim_blanks :: "string \<Rightarrow> string" where
  "trim_blanks s = rev (dropWhile is_blank (rev (dropWhile is_blank s)))"

fun dicrc_charset :: "string list \<Rightarrow> string" where
  "dicrc_charset [] = []"
| "dicrc_charset (ln # rest) =
     (if str_contains ln ''config-charset''
      then (if CHR ''='' \<in> set ln
            then (let equalPos = length (takeWhile (\<lambda>c. c \<noteq> CHR ''='') ln)
                  in trim_blanks (drop (equalPos + 1) ln))
            else dicrc_charset rest)
      else dicrc_charset rest)"

definition detect_dicdir :: "World \<Rightarrow> string" where
  "detect_dicdir W =
     (case mecab_config_dicdir W of
        None \<Rightarrow> []
      | Some buffer \<Rightarrow>
          if buffer \<noteq> [] \<and> last buffer = CHR 0x0A then butlast buffer else buffer)"

definition declared_charset :: "World \<Rightarrow> string" where
  "declared_charset W =
     (if detect_dicdir W \<noteq> []
      then (case ifstream_lines W (detect_dicdir W @ ''/ipadic/dicrc'') of
              None \<Rightarrow> []
            | Some lns \<Rightarrow> dicrc_charset lns)
      else [])"

text \<open>
  \<^verbatim>\<open>MeCabManager::detectSystemMeCab\<close>: the dictionary directory, the charset declared
  in \<^verbatim>\<open>dicrc\<close>, then the default or the empirical probe on a tagger created with an
  empty argument string.
\<close>

definition detectSystemMeCab :: "World \<Rightarrow> SystemLibInfo" where
  "detectSystemMeCab W =
     (let dicdir0 = detect_dicdir W;
          charset0 = declared_charset W;
          charset1 =
            (if charset0 = [] then ''UTF-8''
             else if charset0 \<noteq> ''UTF-8''
             then (case createTagger W [] of
                     None \<Rightarrow> charset0
                   | Some testTagger \<Rightarrow>
                       if utf8Works (nodes_of (parseToNode testTagger testUtf8))
                       then ''UTF-8'' else charset0)
             else charset0)
      in \<lparr>isAvailable = (dicdir0 \<noteq> []), dicPath = dicdir0, charset = charset1\<rparr>)"

definition MeCabManager_new :: "bool \<Rightarrow> 's MeCabManager" where
  "MeCabManager_new enableCaboCha =
     \<lparr>mecab_tagger = None, cabocha_parser = None, system_charset = ''UTF-8'',
      cabocha_available = False, enable_cabocha = enableCaboCha\<rparr>"

text \<open>
  \<^verbatim>\<open>MeCabManager::initialize\<close> from the charset probe on (the part reached once a
  tagger exists), then the whole function. Beside the returned flag and the manager
  after the call, the result lists the argument strings given to
  \<^verbatim>\<open>MeCab::createTagger\<close> by the two construction attempts, in order.
\<close>

definition initialize_tail :: "'s MeCabManager \<Rightarrow> bool \<times> 's MeCabManager" where
  "initialize_tail M =
     (let M1 = M\<lparr>MeCabManager.system_charset :=
                   testMeCabCharset (mecab_tagger M) (MeCabManager.system_charset M)\<rparr>;
          M2 = (if cabocha_parser M1 \<noteq> None then M1\<lparr>cabocha_available := True\<rparr> else M1)
      in (mecab_tagger M2 \<noteq> None, M2))"

definition resolve_charset :: "string \<Rightarrow> SystemLibInfo \<Rightarrow> string" where
  "resolve_charset mecabCharset systemMeCab =
     (if mecabCharset \<noteq> [] then mecabCharset
      else if SystemLibInfo.charset systemMeCab \<noteq> [] then SystemLibInfo.charset systemMeCab
      else ''UTF-8'')"

definition systemMeCab_of :: "World \<Rightarrow> string \<Rightarrow> SystemLibInfo" where
  "systemMeCab_of W mecabDicPath =
     (if mecabDicPath = [] then detectSystemMeCab W
      else SystemLibInfo_default\<lparr>isAvailable := True\<rparr>)"

definition mecab_args_of :: "string \<Rightarrow> SystemLibInfo \<Rightarrow> string" where
  "mecab_args_of mecabDicPath systemMeCab =
     (if mecabDicPath \<noteq> [] then ''-d '' @ mecabDicPath
      else if isAvailable systemMeCab \<and> SystemLibInfo.dicPath systemMeCab \<noteq> []
      then ''-d '' @ SystemLibInfo.dicPath systemMeCab @ ''/ipadic''
      else [])"

definition MeCabManager_initialize ::
  "World \<Rightarrow> string \<Rightarrow> string \<Rightarrow> 's MeCabManager
     \<Rightarrow> bool \<times> 's MeCabManager \<times> string list" where
  "MeCabManager_initialize W mecabDicPath mecabCharset M =
     (let systemMeCab = systemMeCab_of W mecabDicPath;
          M1 = M\<lparr>MeCabManager.system_charset := resolve_charset mecabCharset systemMeCab\<rparr>;
          mecab_args = mecab_args_of mecabDicPath systemMeCab
      in case createTagger W (c_str mecab_args) of
           Some t \<Rightarrow>
             (case initialize_tail (M1\<lparr>mecab_tagger := Some t\<rparr>) of
                (ok, M') \<Rightarrow> (ok, M', [c_str mecab_args]))
         | None \<Rightarrow>
             if mecab_args \<noteq> []
             then (case createTagger W [] of
                     Some t \<Rightarrow>
                       (case initialize_tail (M1\<lparr>mecab_tagger := Some t\<rparr>) of
                          (ok, M') \<Rightarrow> (ok, M', [c_str mecab_args, []]))
                   | None \<Rightarrow> (False, M1\<lparr>mecab_tagger := None\<rparr>, [c_str mecab_args, []]))
             else (False, M1\<lparr>mecab_tagger := None\<rparr>, [c_str mecab_args]))"

text \<open>\<^verbatim>\<open>Analyzer::initialize\<close>: the returned flag and the analyzer after the call.\<close>

definition Analyzer_initialize ::
  "World \<Rightarrow> MoZukuConfig \<Rightarrow> 's Analyzer \<Rightarrow> bool \<times> 's Analyzer" where
  "Analyzer_initialize W cfg A =
     (let A1 = A\<lparr>config := cfg\<rparr>;
          mecabDicPath =
            (if MeCabConfig.dicPath (mecab cfg) = [] then [] else MeCabConfig.dicPath (mecab cfg));
          mecabCharset =
            (if MeCabConfig.charset (mecab cfg) = [] then ''UTF-8''
             else MeCabConfig.charset (mecab cfg))
      in case MeCabManager_initialize W mecabDicPath mecabCharset (mecab_manager A1) of
           (ok, M', attempts) \<Rightarrow>
             if \<not> ok then (False, A1\<lparr>mecab_manager := M'\<rparr>)
             else (True, A1\<lparr>mecab_manager := M',
                             Analyzer.system_charset := getSystemCharset M'\<rparr>))"

text \<open>
  The managers a program can hold: one made by the constructor, then any number of
  \<^verbatim>\<open>initialize\<close> calls in any surroundings and with any arguments.
\<close>

inductive manager_reachable :: "'s MeCabManager \<Rightarrow> bool" where
  constructed: "manager_reachable (MeCabManager_new enableCaboCha)"
| initialized: "manager_reachable M \<Longrightarrow>
     manager_reachable (fst (snd (MeCabManager_initialize W mecabDicPath mecabCharset M)))"

section \<open>Notions used to state the properties\<close>

text \<open>The surface occurs in the text at byte offset \<open>p\<close>.\<close>

definition occurs_at :: "string \<Rightarrow> string \<Rightarrow> nat \<Rightarrow> bool" where
  "occurs_at txt surf p = (p + length surf \<le> length txt \<and> take (length surf) (drop p txt) = surf)"

text \<open>
  The surface \<^verbatim>\<open>analyzeText\<close> decodes for a node, and the nodes its loop passes over
  without a token: the two sentinels and nodes whose decoded surface is empty.
\<close>

definition decoded_surface :: "('ty, 'md) Collab \<Rightarrow> string \<Rightarrow> Node \<Rightarrow> string" where
  "decoded_surface X cs n = systemToUtf8 X (take (node_length n) (Node.surface n)) cs"

definition skipped :: "('ty, 'md) Collab \<Rightarrow> string \<Rightarrow> Node \<Rightarrow> bool" where
  "skipped X cs n =
     (stat n = MECAB_BOS_NODE \<or> stat n = MECAB_EOS_NODE \<or> decoded_surface X cs n = [])"

text \<open>
  One matched token lies before another: its byte range, from its offset over the
  length of its surface, ends at or before the offset of the other.
\<close>

definition follows ::
  "nat \<times> ('ty, 'md) TokenData \<Rightarrow> nat \<times> ('ty, 'md) TokenData \<Rightarrow> bool" where
  "follows a b = (fst a + length (TokenData.surface (snd a)) \<le> fst b)"

text \<open>
  A node that answers the charset probe: not a sentinel, with a surface of six bytes
  equal to the test text.
\<close>

definition probe_hit :: "Node \<Rightarrow> bool" where
  "probe_hit n =
     (stat n \<noteq> MECAB_BOS_NODE \<and> stat n \<noteq> MECAB_EOS_NODE \<and>
      length (take (node_length n) (Node.surface n)) = 6 \<and>
      take (node_length n) (Node.surface n) = testUtf8)"

text \<open>The indices from \<open>i\<close> on at which the tree holds a chunk.\<close>

definition present_chunks :: "'s cabocha_tree_t \<Rightarrow> nat \<Rightarrow> nat list" where
  "present_chunks tree i = filter (\<lambda>k. chunks tree ! k \<noteq> None) [i..<length (chunks tree)]"

text \<open>
  The UTF-8 encoding of a Unicode scalar value as RFC 3629 defines it: the reference
  against which the lead-byte classification of \<^verbatim>\<open>computeByteOffset\<close> is read.
\<close>

definition valid_codepoint :: "nat \<Rightarrow> bool" where
  "valid_codepoint cp = (cp \<le> 0x10FFFF \<and> \<not> (0xD800 \<le> cp \<and> cp \<le> 0xDFFF))"

definition utf8_encode :: "nat \<Rightarrow> string" where
  "utf8_encode cp =
     (if cp < 0x80 then [char_of cp]
      else if cp < 0x800 then
        [char_of (0xC0 + cp div 64), char_of (0x80 + cp mod 64)]
      else if cp < 0x10000 then
        [char_of (0xE0 + cp div 4096), char_of (0x80 + cp div 64 mod 64),
         char_of (0x80 + cp mod 64)]
      else
        [char_of (0xF0 + cp div 262144), char_of (0x80 + cp div 4096 mod 64),
         char_of (0x80 + cp div 64 mod 64), char_of (0x80 + cp mod 64)])"

text \<open>
  The UTF-16 code units of a code point, told from the length of its UTF-8 encoding:
  two for four bytes, one otherwise.
\<close>

definition units_of :: "nat \<Rightarrow> int" where
  "units_of cp = (if length (utf8_encode cp) = 4 then 2 else 1)"

text \<open>
  Sample surroundings for concrete runs: collaborators that are right for ASCII text on
  one line (every conversion is the identity, a column is a byte offset), a tagger that
  answers every text with a fixed node chain, and nodes that own their whole surface.
\<close>

definition ascii_collab :: "(nat, nat) Collab" where
  "ascii_collab =
     \<lparr>sanitizeUTF8 = (\<lambda>s. s),
      utf8ToSystem = (\<lambda>s cs. s),
      systemToUtf8 = (\<lambda>s cs. s),
      computeLineStarts = (\<lambda>s. [0]),
      byteOffsetToPosition = (\<lambda>s ls off. \<lparr>Position.line = 0, character = int off\<rparr>),
      utf8ToUtf16Length = length,
      parseFeatureDetails = (\<lambda>f cs skip. ([], [], [])),
      mapPosToType = (\<lambda>f. 0),
      computeModifiers = (\<lambda>s off len f. 0)\<rparr>"

definition word_node :: "string \<Rightarrow> Node" where
  "word_node s = \<lparr>stat = MECAB_NOR_NODE, surface = s, node_length = length s, feature = None\<rparr>"

definition bos_node :: Node where
  "bos_node = \<lparr>stat = MECAB_BOS_NODE, surface = [], node_length = 0, feature = None\<rparr>"

definition eos_node :: Node where
  "eos_node = \<lparr>stat = MECAB_EOS_NODE, surface = [], node_length = 0, feature = None\<rparr>"

definition fixed_tagger :: "string list \<Rightarrow> Tagger" where
  "fixed_tagger ws = \<lparr>parseToNode = (\<lambda>s. Some (bos_node # map word_node ws @ [eos_node]))\<rparr>"

definition sample_world :: "Tagger option \<Rightarrow> World" where
  "sample_world t =
     \<lparr>mecab_config_dicdir = None,
      ifstream_lines = (\<lambda>path. None),
      createTagger = (\<lambda>args. t),
      getenv_MOZUKU_DEBUG = False\<rparr>"

definition sample_config :: MoZukuConfig where
  "sample_config = \<lparr>mecab = \<lparr>MeCabConfig.dicPath = [], charset = []\<rparr>, analysis = \<lparr>grammarCheck = False\<rparr>\<rparr>"

definition sample_analyzer :: "Tagger option \<Rightarrow> nat Analyzer" where
  "sample_analyzer t =
     \<lparr>config = sample_config,
      mecab_manager = (MeCabManager_new True)\<lparr>mecab_tagger := t\<rparr>,
      system_charset = ''UTF-8''\<rparr>"

definition fresh_flag :: DebugFlag where
  "fresh_flag = \<lparr>initialized = False, debug = False\<rparr>"

text \<open>
  An installation whose \<^verbatim>\<open>dicrc\<close> declares EUC-JP and whose taggers answer in EUC-JP
  (the test text comes back as four bytes), a configuration naming a dictionary that
  does not exist, surroundings in which a tagger can only be made without arguments,
  and an analyzer holding a secondary engine whose tree has a null chunk between two
  chunks.
\<close>

definition euc_tagger :: Tagger where
  "euc_tagger = fixed_tagger [[CHR 0xB8, CHR 0xED, CHR 0xB2, CHR 0xF2]]"

definition euc_world :: World where
  "euc_world =
     \<lparr>mecab_config_dicdir = Some (''/usr/lib/mecab/dic'' @ [CHR 0x0A]),
      ifstream_lines =
        (\<lambda>path. if path = ''/usr/lib/mecab/dic/ipadic/dicrc''
                then Some [''cost-factor = 800'', ''config-charset = EUC-JP'']
                else None),
      createTagger = (\<lambda>args. Some euc_tagger),
      getenv_MOZUKU_DEBUG = False\<rparr>"

definition fallback_world :: World where
  "fallback_world =
     \<lparr>mecab_config_dicdir = None,
      ifstream_lines = (\<lambda>path. None),
      createTagger = (\<lambda>args. if args = [] then Some euc_tagger else None),
      getenv_MOZUKU_DEBUG = False\<rparr>"

definition broken_config :: MoZukuConfig where
  "broken_config =
     \<lparr>mecab = \<lparr>MeCabConfig.dicPath = ''/nonexistent'', charset = []\<rparr>,
      analysis = \<lparr>grammarCheck = False\<rparr>\<rparr>"

definition sample_tree :: "nat cabocha_tree_t" where
  "sample_tree =
     \<lparr>chunks = [Some \<lparr>link = 2, score = 7, token_pos = 0, token_size = 1\<rparr>,
                None,
                Some \<lparr>link = -1, score = 0, token_pos = 1, token_size = 2\<rparr>],
      tokens = [Some \<lparr>tok_surface = Some ''ab''\<rparr>, None, Some \<lparr>tok_surface = Some ''c''\<rparr>]\<rparr>"

definition cabocha_analyzer :: "nat Analyzer" where
  "cabocha_analyzer =
     \<lparr>config = sample_config,
      mecab_manager =
        \<lparr>mecab_tagger = None,
         cabocha_parser = Some \<lparr>cabocha_sparse_totree = (\<lambda>s. Some sample_tree)\<rparr>,
         system_charset = ''UTF-8'',
         cabocha_available = True,
         enable_cabocha = True\<rparr>,
      system_charset = ''UTF-8''\<rparr>"

section \<open>Token alignment\<close>

lemma realign_ge: "currentBytePos \<le> realign cleanText surf currentBytePos"
proof (induction cleanText surf currentBytePos rule: realign.induct)
  case (1 cleanText surf currentBytePos)
  show ?case
    using 1 by (subst realign.simps) (auto simp: Let_def dest: Suc_leD)
qed

lemma makeToken_surface:
  "TokenData.surface (makeToken X cs cleanText ls p surf n) = surf"
  by (simp add: makeToken_def Let_def split: prod.splits)

lemma makeToken_span:
  "endChar (makeToken X cs cleanText ls p surf n)
     - startChar (makeToken X cs cleanText ls p surf n)
   = int (utf8ToUtf16Length X surf)"
  by (simp add: makeToken_def Let_def split: prod.splits)

lemma makeToken_position:
  "TokenData.line (makeToken X cs cleanText ls p surf n)
     = Position.line (byteOffsetToPosition X cleanText ls p)
   \<and> startChar (makeToken X cs cleanText ls p surf n)
     = character (byteOffsetToPosition X cleanText ls p)"
  by (simp add: makeToken_def Let_def split: prod.splits)

lemma analyzeNodes_skip:
  "skipped X cs n \<Longrightarrow>
   analyzeNodes X cs cleanText ls cur (n # ns) = analyzeNodes X cs cleanText ls cur ns"
  by (auto simp: skipped_def decoded_surface_def Let_def)

lemma analyzeNodes_token:
  "\<not> skipped X cs n \<Longrightarrow>
   analyzeNodes X cs cleanText ls cur (n # ns) =
     (realign cleanText (decoded_surface X cs n) cur,
      makeToken X cs cleanText ls (realign cleanText (decoded_surface X cs n) cur)
        (decoded_surface X cs n) n)
     # analyzeNodes X cs cleanText ls
         (realign cleanText (decoded_surface X cs n) cur + length (decoded_surface X cs n)) ns"
  by (auto simp: skipped_def decoded_surface_def Let_def)

declare analyzeNodes.simps(2) [simp del]

text \<open>Every token of the loop is matched at or after the cursor the loop starts from.\<close>

lemma analyzeNodes_lower_bound:
  "e \<in> set (analyzeNodes X cs cleanText ls cur ns) \<Longrightarrow> cur \<le> fst e"
proof (induction ns arbitrary: cur)
  case Nil
  then show ?case by simp
next
  case (Cons n ns)
  show ?case
  proof (cases "skipped X cs n")
    case True
    with Cons show ?thesis by (simp only: analyzeNodes_skip)
  next
    case False
    let ?s = "decoded_surface X cs n"
    let ?p = "realign cleanText ?s cur"
    from Cons.prems False
    consider "fst e = ?p" | "e \<in> set (analyzeNodes X cs cleanText ls (?p + length ?s) ns)"
      by (auto simp: analyzeNodes_token)
    then show ?thesis
    proof cases
      case 1
      then show ?thesis using realign_ge[of cur cleanText ?s] by simp
    next
      case 2
      from Cons.IH[OF 2] realign_ge[of cur cleanText ?s] show ?thesis by simp
    qed
  qed
qed

lemma analyzeNodes_follows:
  "sorted_wrt follows (analyzeNodes X cs cleanText ls cur ns)"
proof (induction ns arbitrary: cur)
  case Nil
  show ?case by simp
next
  case (Cons n ns)
  show ?case
  proof (cases "skipped X cs n")
    case True
    with Cons show ?thesis by (simp only: analyzeNodes_skip)
  next
    case False
    let ?s = "decoded_surface X cs n"
    let ?p = "realign cleanText ?s cur"
    have "\<forall>e \<in> set (analyzeNodes X cs cleanText ls (?p + length ?s) ns).
            follows (?p, makeToken X cs cleanText ls ?p ?s n) e"
      using analyzeNodes_lower_bound[of _ X cs cleanText ls "?p + length ?s" ns]
      by (simp add: follows_def makeToken_surface)
    with Cons.IH[of "?p + length ?s"] False show ?thesis
      by (simp add: analyzeNodes_token)
  qed
qed

lemma analyzeNodes_sorted:
  "sorted (map fst (analyzeNodes X cs cleanText ls cur ns))"
proof -
  have "sorted_wrt (\<lambda>a b. fst a \<le> fst b) (analyzeNodes X cs cleanText ls cur ns)"
    by (rule sorted_wrt_mono_rel[OF _ analyzeNodes_follows]) (simp add: follows_def)
  then show ?thesis by (simp add: sorted_map)
qed

lemma analyzeNodes_span:
  "list_all (\<lambda>e. endChar (snd e) - startChar (snd e)
                  = int (utf8ToUtf16Length X (TokenData.surface (snd e))))
     (analyzeNodes X cs cleanText ls cur ns)"
proof (induction ns arbitrary: cur)
  case Nil
  show ?case by simp
next
  case (Cons n ns)
  show ?case
  proof (cases "skipped X cs n")
    case True
    with Cons show ?thesis by (simp only: analyzeNodes_skip)
  next
    case False
    with Cons.IH show ?thesis
      by (simp add: analyzeNodes_token makeToken_span makeToken_surface)
  qed
qed

lemma analyzeText_trace_cases:
  "fst (analyzeText_trace X W A s d) = [] \<or>
   (\<exists>cs cleanText ls ns.
      fst (analyzeText_trace X W A s d) = analyzeNodes X cs cleanText ls 0 ns)"
  by (auto simp: analyzeText_trace_def Let_def split: option.splits prod.splits)

text \<open>
  C1. For every input text, the byte offsets at which the tokens of \<^verbatim>\<open>analyzeText\<close>
  are matched are non-decreasing, the matched byte ranges do not overlap (each range ends
  at or before the offset of every later token), and every token has
  \<open>endChar - startChar\<close> equal to the UTF-16 length of its surface. The tokens returned
  are the tokens of the trace, in order.
\<close>

theorem analyzeText_offsets_ordered:
  "sorted (map fst (fst (analyzeText_trace X W A s d)))
   \<and> sorted_wrt follows (fst (analyzeText_trace X W A s d))
   \<and> list_all (\<lambda>e. endChar (snd e) - startChar (snd e)
                     = int (utf8ToUtf16Length X (TokenData.surface (snd e))))
       (fst (analyzeText_trace X W A s d))
   \<and> fst (analyzeText X W A s d) = map snd (fst (analyzeText_trace X W A s d))"
proof -
  have toks: "fst (analyzeText X W A s d) = map snd (fst (analyzeText_trace X W A s d))"
    by (simp add: analyzeText_def split: prod.splits)
  from analyzeText_trace_cases [of X W A s d] show ?thesis
  proof
    assume "fst (analyzeText_trace X W A s d) = []"
    with toks show ?thesis by simp
  next
    assume "\<exists>cs cleanText ls ns.
              fst (analyzeText_trace X W A s d) = analyzeNodes X cs cleanText ls 0 ns"
    then obtain cs cleanText ls ns where
      "fst (analyzeText_trace X W A s d) = analyzeNodes X cs cleanText ls 0 ns" by blast
    with toks show ?thesis
      by (simp add: analyzeNodes_sorted analyzeNodes_follows analyzeNodes_span)
  qed
qed

theorem analyzeText_offsets_ordered_witness:
  "map fst (fst (analyzeText_trace ascii_collab (sample_world None)
      (sample_analyzer (Some (fixed_tagger [''ab'', ''c'']))) ''ab c ab'' fresh_flag)) = [0, 3]
   \<and> sorted_wrt follows (fst (analyzeText_trace ascii_collab (sample_world None)
      (sample_analyzer (Some (fixed_tagger [''ab'', ''c'']))) ''ab c ab'' fresh_flag))
   \<and> map (\<lambda>t. endChar t - startChar t) (fst (analyzeText ascii_collab (sample_world None)
      (sample_analyzer (Some (fixed_tagger [''ab'', ''c'']))) ''ab c ab'' fresh_flag)) = [2, 1]"
proof -
  have offs: "map fst (fst (analyzeText_trace ascii_collab (sample_world None)
      (sample_analyzer (Some (fixed_tagger [''ab'', ''c'']))) ''ab c ab'' fresh_flag)) = [0, 3]"
    by code_simp
  have spans: "map (\<lambda>t. endChar t - startChar t) (fst (analyzeText ascii_collab (sample_world None)
      (sample_analyzer (Some (fixed_tagger [''ab'', ''c'']))) ''ab c ab'' fresh_flag)) = [2, 1]"
    by code_simp
  from analyzeText_offsets_ordered [of ascii_collab "sample_world None"
      "sample_analyzer (Some (fixed_tagger [''ab'', ''c'']))" "''ab c ab''" fresh_flag]
    offs spans
  show ?thesis by simp
qed

text \<open>
  A scan for a surface that occurs nowhere from the cursor on ends at the end of the
  text when it starts inside the text, and where it starts otherwise.
\<close>

lemma realign_no_occurrence:
  "\<forall>p\<ge>cur. \<not> occurs_at cleanText surf p \<Longrightarrow>
   realign cleanText surf cur = max cur (length cleanText)"
proof (induction cleanText surf cur rule: realign.induct)
  case (1 cleanText surf cur)
  show ?case
  proof (cases "cur < length cleanText")
    case False
    then show ?thesis by (subst realign.simps) simp
  next
    case True
    from "1.prems" have no: "\<not> occurs_at cleanText surf cur" by simp
    with True have cond:
      "\<not> (length cleanText - cur \<ge> length surf \<and> substr cleanText cur (length surf) = surf)"
      by (auto simp: occurs_at_def substr_def)
    from "1.prems" have "\<forall>p\<ge>cur + 1. \<not> occurs_at cleanText surf p" by simp
    with "1.IH"[OF True refl cond]
    have "realign cleanText surf (cur + 1) = max (cur + 1) (length cleanText)" by simp
    with True cond show ?thesis
      by (subst realign.simps) (simp add: Let_def max_def)
  qed
qed

text \<open>
  C2, as amended. For every text and every node that yields a token, if the decoded
  surface does not occur in the text at or after the cursor, the scan leaves the cursor
  at the end of the text when the cursor was at or before it, and leaves the cursor
  unchanged when it was already past the end of the text; the token is emitted with the
  position of that cursor, and the loop goes on with the remaining nodes from that cursor
  plus the length of the surface.
\<close>

theorem realign_failure_degrades:
  assumes "\<not> skipped X cs n"
    and "\<forall>p\<ge>cur. \<not> occurs_at cleanText (decoded_surface X cs n) p"
  shows "realign cleanText (decoded_surface X cs n) cur = max cur (length cleanText)
    \<and> (cur \<le> length cleanText \<longrightarrow>
         realign cleanText (decoded_surface X cs n) cur = length cleanText)
    \<and> analyzeNodes X cs cleanText ls cur (n # ns) =
        (max cur (length cleanText),
         makeToken X cs cleanText ls (max cur (length cleanText)) (decoded_surface X cs n) n)
        # analyzeNodes X cs cleanText ls
            (max cur (length cleanText) + length (decoded_surface X cs n)) ns
    \<and> TokenData.line
          (makeToken X cs cleanText ls (max cur (length cleanText)) (decoded_surface X cs n) n)
        = Position.line (byteOffsetToPosition X cleanText ls (max cur (length cleanText)))
    \<and> startChar
          (makeToken X cs cleanText ls (max cur (length cleanText)) (decoded_surface X cs n) n)
        = character (byteOffsetToPosition X cleanText ls (max cur (length cleanText)))"
proof -
  from assms(2)
  have r: "realign cleanText (decoded_surface X cs n) cur = max cur (length cleanText)"
    by (rule realign_no_occurrence)
  from assms(1) r show ?thesis
    by (simp add: analyzeNodes_token makeToken_position)
qed

theorem realign_failure_degrades_witness:
  "\<not> skipped ascii_collab ''UTF-8'' (word_node ''c'')
   \<and> realign ''ab'' (decoded_surface ascii_collab ''UTF-8'' (word_node ''c'')) 0 = 2
   \<and> map fst (analyzeNodes ascii_collab ''UTF-8'' ''ab'' [0] 0 [word_node ''c'', word_node ''b'']) = [2, 3]"
proof -
  have ds: "decoded_surface ascii_collab ''UTF-8'' (word_node ''c'') = ''c''"
    by (simp add: decoded_surface_def ascii_collab_def word_node_def)
  have h1: "\<not> skipped ascii_collab ''UTF-8'' (word_node ''c'')"
    by (simp add: skipped_def ds) (simp add: word_node_def)
  have h2: "\<forall>p\<ge>0. \<not> occurs_at ''ab'' (decoded_surface ascii_collab ''UTF-8'' (word_node ''c'')) p"
  proof (intro allI impI)
    fix p :: nat
    show "\<not> occurs_at ''ab'' (decoded_surface ascii_collab ''UTF-8'' (word_node ''c'')) p"
      by (cases p; cases "p - 1") (auto simp: occurs_at_def ds)
  qed
  have rest: "map fst (analyzeNodes ascii_collab ''UTF-8'' ''ab'' [0] (2 + 1) [word_node ''b'']) = [3]"
    by code_simp
  from realign_failure_degrades [OF h1 h2, of "[0]" "[word_node ''b'']"] h1 h2 rest
  show ?thesis by (simp add: ds numeral_3_eq_3)
qed

text \<open>
  C2 as stated fails once the cursor is past the end of the text. On the text \<open>a\<close>
  with the nodes \<open>b\<close> and \<open>c\<close>, neither of which occurs in it, the first token is
  matched at offset 1, the end of the text, and the cursor moves on to 2; the scan for
  \<open>c\<close> then starts and stays at 2, and the second token gets the position of offset 2,
  not that of the end of the text.
\<close>

theorem realign_past_end_counterexample:
  "\<not> occurs_at ''a'' ''c'' 2 \<and> \<not> occurs_at ''a'' ''c'' 1 \<and> length ''a'' = 1
   \<and> realign ''a'' ''c'' 2 = 2
   \<and> map fst (fst (analyzeText_trace ascii_collab (sample_world None)
        (sample_analyzer (Some (fixed_tagger [''b'', ''c'']))) ''a'' fresh_flag)) = [1, 2]
   \<and> map startChar (fst (analyzeText ascii_collab (sample_world None)
        (sample_analyzer (Some (fixed_tagger [''b'', ''c'']))) ''a'' fresh_flag)) = [1, 2]
   \<and> character (byteOffsetToPosition ascii_collab ''a'' [0] (length ''a'')) = 1"
  by code_simp

section \<open>Empty results and determinism of analyzeText\<close>

lemma analyzeText_no_tagger:
  "getMeCabTagger (mecab_manager A) = None \<Longrightarrow> fst (analyzeText X W A s d) = []"
  by (auto simp: analyzeText_def analyzeText_trace_def Let_def
           split: prod.splits option.splits)

text \<open>
  C9. \<^verbatim>\<open>analyzeText\<close> returns an empty token vector, as an ordinary return value,
  whenever the text is empty, the manager holds no tagger, or the tagger's parse gives a
  null node.
\<close>

theorem analyzeText_empty_result:
  "s = [] \<or> getMeCabTagger (mecab_manager A) = None
     \<or> (\<exists>tagger. getMeCabTagger (mecab_manager A) = Some tagger \<and>
          parseToNode tagger
            (c_str (utf8ToSystem X (sanitizeUTF8 X s) (Analyzer.system_charset A))) = None)
   \<Longrightarrow> fst (analyzeText X W A s d) = []"
  by (auto simp: analyzeText_def analyzeText_trace_def Let_def
           split: prod.splits option.splits)

theorem analyzeText_empty_result_witness:
  "getMeCabTagger (mecab_manager (sample_analyzer None)) = None
   \<and> fst (analyzeText ascii_collab (sample_world None) (sample_analyzer None) ''abc'' fresh_flag) = []"
proof -
  have h: "getMeCabTagger (mecab_manager (sample_analyzer None)) = None"
    by (simp add: getMeCabTagger_def sample_analyzer_def)
  from analyzeText_empty_result [of "''abc''" "sample_analyzer None" ascii_collab
      "sample_world None" fresh_flag] h
  show ?thesis by simp
qed

text \<open>
  C10. The tokens \<^verbatim>\<open>analyzeText\<close> returns for a text on an analyzer do not depend on
  the surroundings or on the statics of \<^verbatim>\<open>isDebugEnabled\<close>: whatever the debug
  environment flag and whether or not it has been read, the tokens are the same; and a
  second call, made with the statics the first call left, returns the tokens of the
  first. The engine is deterministic by construction: a tagger is a function.
\<close>

theorem analyzeText_deterministic:
  "fst (analyzeText X W1 A s d1) = fst (analyzeText X W2 A s d2)
   \<and> fst (analyzeText X W A s (fst (snd (analyzeText X W A s d))))
       = fst (analyzeText X W A s d)"
  by (auto simp: analyzeText_def analyzeText_trace_def Let_def
           split: prod.splits option.splits)

section \<open>Charset probe\<close>

lemma utf8Works_iff: "utf8Works ns \<longleftrightarrow> list_ex probe_hit ns"
  by (induction ns) (auto simp: probe_hit_def Let_def)

text \<open>
  C3. For every declared charset other than UTF-8, the probe on a tagger overrides the
  charset to UTF-8 if and only if the tagger, given the six-byte test text, returns a
  node that is not a sentinel and whose surface has byte length six and equals the test
  text; otherwise the declared charset is kept. The same holds for the probe of
  \<^verbatim>\<open>detectSystemMeCab\<close> on the charset declared in \<^verbatim>\<open>dicrc\<close>.
\<close>

theorem charset_probe_override:
  assumes "originalCharset \<noteq> ''UTF-8''"
  shows "length testUtf8 = 6
    \<and> (testMeCabCharset (Some t) originalCharset = ''UTF-8''
            \<longleftrightarrow> list_ex probe_hit (nodes_of (parseToNode t testUtf8)))
    \<and> (\<not> list_ex probe_hit (nodes_of (parseToNode t testUtf8))
            \<longrightarrow> testMeCabCharset (Some t) originalCharset = originalCharset)
    \<and> testMeCabCharset None originalCharset = originalCharset
    \<and> (declared_charset W = originalCharset \<and> originalCharset \<noteq> [] \<longrightarrow>
         SystemLibInfo.charset (detectSystemMeCab W) =
           (case createTagger W [] of
              None \<Rightarrow> originalCharset
            | Some testTagger \<Rightarrow>
                if list_ex probe_hit (nodes_of (parseToNode testTagger testUtf8))
                then ''UTF-8'' else originalCharset))"
  using assms
  by (auto simp: testMeCabCharset_def detectSystemMeCab_def utf8Works_iff Let_def
                 testUtf8_def
           split: option.splits)

theorem charset_probe_override_witness:
  "''EUC-JP'' \<noteq> ''UTF-8''
   \<and> list_ex probe_hit (nodes_of (parseToNode (fixed_tagger [testUtf8]) testUtf8))
   \<and> testMeCabCharset (Some (fixed_tagger [testUtf8])) ''EUC-JP'' = ''UTF-8''
   \<and> \<not> list_ex probe_hit (nodes_of (parseToNode euc_tagger testUtf8))
   \<and> testMeCabCharset (Some euc_tagger) ''EUC-JP'' = ''EUC-JP''"
proof -
  have h: "''EUC-JP'' \<noteq> ''UTF-8''" by simp
  have hit: "list_ex probe_hit (nodes_of (parseToNode (fixed_tagger [testUtf8]) testUtf8))"
    by code_simp
  have miss: "\<not> list_ex probe_hit (nodes_of (parseToNode euc_tagger testUtf8))"
    by code_simp
  from charset_probe_override [OF h, of "fixed_tagger [testUtf8]" "sample_world None"]
       charset_probe_override [OF h, of euc_tagger "sample_world None"] hit miss h
  show ?thesis by simp
qed

section \<open>Initialization\<close>

lemma c_str_Nil: "c_str [] = []"
  by (simp add: c_str_def)

lemma Analyzer_initialize_proj:
  "fst (Analyzer_initialize W cfg A) =
     fst (MeCabManager_initialize W (MeCabConfig.dicPath (mecab cfg))
            (if MeCabConfig.charset (mecab cfg) = [] then ''UTF-8''
             else MeCabConfig.charset (mecab cfg)) (mecab_manager A))
   \<and> mecab_manager (snd (Analyzer_initialize W cfg A)) =
     fst (snd (MeCabManager_initialize W (MeCabConfig.dicPath (mecab cfg))
            (if MeCabConfig.charset (mecab cfg) = [] then ''UTF-8''
             else MeCabConfig.charset (mecab cfg)) (mecab_manager A)))"
proof (cases "MeCabManager_initialize W (MeCabConfig.dicPath (mecab cfg))
            (if MeCabConfig.charset (mecab cfg) = [] then ''UTF-8''
             else MeCabConfig.charset (mecab cfg)) (mecab_manager A)")
  case (fields ok M' attempts)
  then show ?thesis
    by (cases "MeCabConfig.dicPath (mecab cfg) = []")
       (simp_all add: Analyzer_initialize_def Let_def)
qed

text \<open>
  C5. When the first construction of the tagger fails: if it was given an explicit
  dictionary argument, \<^verbatim>\<open>initialize\<close> makes exactly one more attempt, with the empty
  argument string; if it was given none, there is no further attempt. If the retry fails
  too (or the only attempt was the one without an argument), \<^verbatim>\<open>initialize\<close> returns
  false at both levels, \<^verbatim>\<open>isInitialized\<close> is false afterwards, and every later
  \<^verbatim>\<open>analyzeText\<close> on that analyzer returns the empty vector. If the retry succeeds,
  \<^verbatim>\<open>initialize\<close> returns true at both levels and the manager holds the tagger the
  retry made, so \<^verbatim>\<open>isInitialized\<close> is true.
\<close>

theorem initialize_failure:
  fixes A :: "'s Analyzer" and X :: "('ty, 'md) Collab"
  assumes dp: "dp = MeCabConfig.dicPath (mecab cfg)"
    and cs: "cs = (if MeCabConfig.charset (mecab cfg) = [] then ''UTF-8''
                   else MeCabConfig.charset (mecab cfg))"
    and args: "args = mecab_args_of dp (systemMeCab_of W dp)"
    and first: "createTagger W (c_str args) = None"
  shows "(args \<noteq> [] \<longrightarrow>
            snd (snd (MeCabManager_initialize W dp cs (mecab_manager A))) = [c_str args, []])
    \<and> (args = [] \<longrightarrow>
            snd (snd (MeCabManager_initialize W dp cs (mecab_manager A))) = [[]])
    \<and> (createTagger W [] = None \<longrightarrow>
          fst (MeCabManager_initialize W dp cs (mecab_manager A)) = False
        \<and> fst (Analyzer_initialize W cfg A) = False
        \<and> isInitialized (snd (Analyzer_initialize W cfg A)) = False
        \<and> (\<forall>W' s d. fst (analyzeText X W' (snd (Analyzer_initialize W cfg A)) s d) = []))
    \<and> (args \<noteq> [] \<and> createTagger W [] = Some t \<longrightarrow>
          fst (MeCabManager_initialize W dp cs (mecab_manager A)) = True
        \<and> mecab_tagger (fst (snd (MeCabManager_initialize W dp cs (mecab_manager A)))) = Some t
        \<and> fst (Analyzer_initialize W cfg A) = True
        \<and> getMeCabTagger (mecab_manager (snd (Analyzer_initialize W cfg A))) = Some t
        \<and> isInitialized (snd (Analyzer_initialize W cfg A)) = True)
    \<and> (args = [] \<longrightarrow>
          fst (MeCabManager_initialize W dp cs (mecab_manager A)) = False
        \<and> mecab_tagger (fst (snd (MeCabManager_initialize W dp cs (mecab_manager A)))) = None
        \<and> fst (Analyzer_initialize W cfg A) = False
        \<and> isInitialized (snd (Analyzer_initialize W cfg A)) = False)"
proof -
  let ?r = "MeCabManager_initialize W dp cs (mecab_manager A)"
  have tr1: "args \<noteq> [] \<longrightarrow> snd (snd ?r) = [c_str args, []]"
    using first args
    by (auto simp: MeCabManager_initialize_def Let_def split: option.splits prod.splits)
  have tr2: "args = [] \<longrightarrow> snd (snd ?r) = [[]]"
    using first args
    by (auto simp: MeCabManager_initialize_def Let_def c_str_Nil
             split: option.splits prod.splits)
  have fail: "createTagger W [] = None \<longrightarrow>
      fst ?r = False \<and> mecab_tagger (fst (snd ?r)) = None"
    using first args
    by (auto simp: MeCabManager_initialize_def Let_def split: option.splits prod.splits)
  have an: "createTagger W [] = None \<longrightarrow>
      fst (Analyzer_initialize W cfg A) = False \<and>
      getMeCabTagger (mecab_manager (snd (Analyzer_initialize W cfg A))) = None"
    using fail Analyzer_initialize_proj[of W cfg A] unfolding dp cs
    by (simp add: getMeCabTagger_def)
  have retry: "args \<noteq> [] \<and> createTagger W [] = Some t \<longrightarrow>
      fst ?r = True \<and> mecab_tagger (fst (snd ?r)) = Some t"
    using first args
    by (auto simp: MeCabManager_initialize_def Let_def initialize_tail_def
             split: option.splits prod.splits)
  have an_retry: "args \<noteq> [] \<and> createTagger W [] = Some t \<longrightarrow>
      fst (Analyzer_initialize W cfg A) = True \<and>
      getMeCabTagger (mecab_manager (snd (Analyzer_initialize W cfg A))) = Some t"
    using retry Analyzer_initialize_proj[of W cfg A] unfolding dp cs
    by (simp add: getMeCabTagger_def)
  have single: "args = [] \<longrightarrow> fst ?r = False \<and> mecab_tagger (fst (snd ?r)) = None"
    using first args
    by (auto simp: MeCabManager_initialize_def Let_def c_str_Nil
             split: option.splits prod.splits)
  have an_single: "args = [] \<longrightarrow>
      fst (Analyzer_initialize W cfg A) = False \<and>
      getMeCabTagger (mecab_manager (snd (Analyzer_initialize W cfg A))) = None"
    using single Analyzer_initialize_proj[of W cfg A] unfolding dp cs
    by (simp add: getMeCabTagger_def)
  have part3: "createTagger W [] = None \<longrightarrow>
          fst ?r = False
        \<and> fst (Analyzer_initialize W cfg A) = False
        \<and> isInitialized (snd (Analyzer_initialize W cfg A)) = False
        \<and> (\<forall>W' s d. fst (analyzeText X W' (snd (Analyzer_initialize W cfg A)) s d) = [])"
    using fail an by (auto simp: isInitialized_def analyzeText_no_tagger)
  have part4: "args \<noteq> [] \<and> createTagger W [] = Some t \<longrightarrow>
          fst ?r = True
        \<and> mecab_tagger (fst (snd ?r)) = Some t
        \<and> fst (Analyzer_initialize W cfg A) = True
        \<and> getMeCabTagger (mecab_manager (snd (Analyzer_initialize W cfg A))) = Some t
        \<and> isInitialized (snd (Analyzer_initialize W cfg A)) = True"
    using retry an_retry by (auto simp: isInitialized_def)
  have part5: "args = [] \<longrightarrow>
          fst ?r = False
        \<and> mecab_tagger (fst (snd ?r)) = None
        \<and> fst (Analyzer_initialize W cfg A) = False
        \<and> isInitialized (snd (Analyzer_initialize W cfg A)) = False"
    using single an_single by (auto simp: isInitialized_def)
  from tr1 tr2 part3 part4 part5 show ?thesis by (intro conjI)
qed

theorem initialize_failure_witness:
  "createTagger (sample_world None) (c_str ''-d /nonexistent'') = None
   \<and> snd (snd (MeCabManager_initialize (sample_world None) ''/nonexistent'' ''UTF-8''
        (mecab_manager (sample_analyzer (Some euc_tagger))))) = [''-d /nonexistent'', []]
   \<and> fst (Analyzer_initialize (sample_world None) broken_config
        (sample_analyzer (Some euc_tagger))) = False
   \<and> isInitialized (snd (Analyzer_initialize (sample_world None) broken_config
        (sample_analyzer (Some euc_tagger)))) = False
   \<and> fst (analyzeText ascii_collab euc_world
        (snd (Analyzer_initialize (sample_world None) broken_config
           (sample_analyzer (Some euc_tagger)))) ''abc'' fresh_flag) = []
   \<and> createTagger fallback_world (c_str ''-d /nonexistent'') = None
   \<and> createTagger fallback_world [] = Some euc_tagger
   \<and> fst (Analyzer_initialize fallback_world broken_config (sample_analyzer None)) = True
   \<and> getMeCabTagger (mecab_manager
        (snd (Analyzer_initialize fallback_world broken_config (sample_analyzer None))))
       = Some euc_tagger
   \<and> isInitialized
        (snd (Analyzer_initialize fallback_world broken_config (sample_analyzer None))) = True"
proof -
  have dp: "''/nonexistent'' = MeCabConfig.dicPath (mecab broken_config)"
    by (simp add: broken_config_def)
  have cs: "''UTF-8'' = (if MeCabConfig.charset (mecab broken_config) = [] then ''UTF-8''
                   else MeCabConfig.charset (mecab broken_config))"
    by (simp add: broken_config_def)
  have args: "''-d /nonexistent'' =
      mecab_args_of ''/nonexistent'' (systemMeCab_of (sample_world None) ''/nonexistent'')"
    by (simp add: mecab_args_of_def)
  have args': "''-d /nonexistent'' =
      mecab_args_of ''/nonexistent'' (systemMeCab_of fallback_world ''/nonexistent'')"
    by (simp add: mecab_args_of_def)
  have cstr: "c_str ''-d /nonexistent'' = ''-d /nonexistent''"
    by (simp add: c_str_def)
  have ne: "''-d /nonexistent'' \<noteq> []" by simp
  have first: "createTagger (sample_world None) (c_str ''-d /nonexistent'') = None"
    by (simp add: sample_world_def)
  have second: "createTagger (sample_world None) [] = None"
    by (simp add: sample_world_def)
  have first': "createTagger fallback_world (c_str ''-d /nonexistent'') = None"
    by (simp add: fallback_world_def cstr)
  have second': "createTagger fallback_world [] = Some euc_tagger"
    by (simp add: fallback_world_def)
  note fails = initialize_failure [OF dp cs args first,
      of "sample_analyzer (Some euc_tagger)" ascii_collab euc_tagger]
  note retries = initialize_failure [OF dp cs args' first',
      of "sample_analyzer None" ascii_collab euc_tagger]
  have w1: "snd (snd (MeCabManager_initialize (sample_world None) ''/nonexistent'' ''UTF-8''
        (mecab_manager (sample_analyzer (Some euc_tagger))))) = [''-d /nonexistent'', []]"
    using fails ne cstr by simp
  have w2: "fst (Analyzer_initialize (sample_world None) broken_config
        (sample_analyzer (Some euc_tagger))) = False
     \<and> isInitialized (snd (Analyzer_initialize (sample_world None) broken_config
        (sample_analyzer (Some euc_tagger)))) = False
     \<and> fst (analyzeText ascii_collab euc_world
        (snd (Analyzer_initialize (sample_world None) broken_config
           (sample_analyzer (Some euc_tagger)))) ''abc'' fresh_flag) = []"
    using fails second by blast
  have w3: "fst (Analyzer_initialize fallback_world broken_config (sample_analyzer None)) = True
     \<and> getMeCabTagger (mecab_manager
        (snd (Analyzer_initialize fallback_world broken_config (sample_analyzer None))))
       = Some euc_tagger
     \<and> isInitialized
        (snd (Analyzer_initialize fallback_world broken_config (sample_analyzer None))) = True"
    using retries ne second' by blast
  from first w1 w2 first' second' w3 show ?thesis by (intro conjI) blast+
qed

lemma MeCabManager_initialize_cabocha:
  assumes "cabocha_parser M = None"
  shows "cabocha_parser (fst (snd (MeCabManager_initialize W dp cs M))) = None \<and>
         cabocha_available (fst (snd (MeCabManager_initialize W dp cs M)))
           = cabocha_available M"
  using assms
  by (auto simp: MeCabManager_initialize_def Let_def initialize_tail_def
           split: option.splits prod.splits)

lemma manager_reachable_cabocha:
  "manager_reachable M \<Longrightarrow> cabocha_parser M = None \<and> \<not> cabocha_available M"
proof (induction rule: manager_reachable.induct)
  case (constructed enableCaboCha)
  show ?case by (simp add: MeCabManager_new_def)
next
  case (initialized M W mecabDicPath mecabCharset)
  then show ?case
    using MeCabManager_initialize_cabocha[of M W mecabDicPath mecabCharset] by simp
qed

text \<open>
  C6. After every call of \<^verbatim>\<open>MeCabManager::initialize\<close> on a manager made by the
  constructor (and initialized any number of times before), \<^verbatim>\<open>cabocha_parser_\<close> is
  still null and \<^verbatim>\<open>cabocha_available_\<close> is false, so \<^verbatim>\<open>isCaboChaAvailable()\<close> is false
  and \<^verbatim>\<open>analyzeDependencies\<close> of an analyzer holding that manager returns the empty
  vector for every text, in either build.
\<close>

theorem cabocha_never_available:
  assumes "manager_reachable M"
    and "M' = fst (snd (MeCabManager_initialize W mecabDicPath mecabCharset M))"
  shows "cabocha_parser M' = None \<and> cabocha_available M' = False
    \<and> isCaboChaAvailable M' = False
    \<and> (\<forall>b X A s. mecab_manager A = M' \<longrightarrow> analyzeDependencies b X A s = [])"
proof -
  from assms have "manager_reachable M'"
    by (simp add: manager_reachable.initialized)
  then have "cabocha_parser M' = None \<and> \<not> cabocha_available M'"
    by (rule manager_reachable_cabocha)
  then show ?thesis
    by (simp add: isCaboChaAvailable_def analyzeDependencies_def)
qed

theorem cabocha_never_available_witness:
  "manager_reachable (MeCabManager_new True :: nat MeCabManager)
   \<and> fst (MeCabManager_initialize euc_world [] ''UTF-8''
        (MeCabManager_new True :: nat MeCabManager)) = True
   \<and> cabocha_available (fst (snd (MeCabManager_initialize euc_world [] ''UTF-8''
        (MeCabManager_new True :: nat MeCabManager)))) = False"
proof -
  have r: "manager_reachable (MeCabManager_new True :: nat MeCabManager)"
    by (rule manager_reachable.constructed)
  have ok: "fst (MeCabManager_initialize euc_world [] ''UTF-8''
        (MeCabManager_new True :: nat MeCabManager)) = True"
    by code_simp
  have off: "cabocha_available (fst (snd (MeCabManager_initialize euc_world [] ''UTF-8''
        (MeCabManager_new True :: nat MeCabManager)))) = False"
    using cabocha_never_available [OF r refl, of euc_world "[]" "''UTF-8''"] by blast
  from r ok off show ?thesis by (intro conjI)
qed

text \<open>
  Resolution of the charset inside \<^verbatim>\<open>MeCabManager::initialize\<close>, before the probe: an
  explicit argument first, then the discovered charset, then UTF-8.
\<close>

lemma resolve_charset_priority:
  "(mecabCharset \<noteq> [] \<longrightarrow> resolve_charset mecabCharset info = mecabCharset)
   \<and> (mecabCharset = [] \<and> SystemLibInfo.charset info \<noteq> [] \<longrightarrow>
        resolve_charset mecabCharset info = SystemLibInfo.charset info)
   \<and> (mecabCharset = [] \<and> SystemLibInfo.charset info = [] \<longrightarrow>
        resolve_charset mecabCharset info = ''UTF-8'')"
  by (simp add: resolve_charset_def)

text \<open>
  \<^verbatim>\<open>Analyzer::initialize\<close> never hands \<^verbatim>\<open>MeCabManager::initialize\<close> an empty charset,
  so the charset the manager resolves is the configured one or UTF-8, whatever discovery
  finds.
\<close>

lemma Analyzer_initialize_charset_argument:
  "resolve_charset
     (if MeCabConfig.charset (mecab cfg) = [] then ''UTF-8''
      else MeCabConfig.charset (mecab cfg)) info
   = (if MeCabConfig.charset (mecab cfg) = [] then ''UTF-8''
      else MeCabConfig.charset (mecab cfg))"
  by (simp add: resolve_charset_def)

text \<open>
  C4. The claim asks that a configuration without a charset takes the charset found by
  discovery. On an installation whose \<^verbatim>\<open>dicrc\<close> declares EUC-JP and whose engine answers
  in EUC-JP, discovery yields EUC-JP and the manager alone, given an empty charset,
  resolves EUC-JP; but \<^verbatim>\<open>Analyzer::initialize\<close> with an empty configured charset
  succeeds with the working charset UTF-8.
\<close>

theorem discovered_charset_unused:
  "SystemLibInfo.charset (detectSystemMeCab euc_world) = ''EUC-JP''
   \<and> MeCabManager.system_charset
       (fst (snd (MeCabManager_initialize euc_world [] [] (MeCabManager_new True :: nat MeCabManager))))
     = ''EUC-JP''
   \<and> MeCabConfig.charset (mecab sample_config) = []
   \<and> fst (Analyzer_initialize euc_world sample_config (sample_analyzer None)) = True
   \<and> Analyzer.system_charset
       (snd (Analyzer_initialize euc_world sample_config (sample_analyzer None))) = ''UTF-8''"
  by code_simp

section \<open>UTF-16 code units in computeByteOffset\<close>

lemma utf8_encode_length:
  "length (utf8_encode cp) =
     (if cp < 0x80 then 1 else if cp < 0x800 then 2 else if cp < 0x10000 then 3 else 4)"
  by (simp add: utf8_encode_def)

lemma utf8_encode_not_Nil: "utf8_encode cp \<noteq> []"
  by (simp add: utf8_encode_def)

lemma seqLen_1: "c < 0xC0 \<Longrightarrow> seqLen c = 1"
  by (simp add: seqLen_def)

lemma seqLen_2: "0xC0 \<le> c \<Longrightarrow> c < 0xE0 \<Longrightarrow> seqLen c = 2"
  by (simp add: seqLen_def)

lemma seqLen_3: "0xE0 \<le> c \<Longrightarrow> c < 0xF0 \<Longrightarrow> seqLen c = 3"
  by (simp add: seqLen_def)

lemma seqLen_4: "0xF0 \<le> c \<Longrightarrow> seqLen c = 4"
  by (simp add: seqLen_def)

lemma lead_value:
  "(of_char (hd (utf8_encode cp)) :: nat) =
     (if cp < 0x80 then cp mod 256
      else if cp < 0x800 then (0xC0 + cp div 64) mod 256
      else if cp < 0x10000 then (0xE0 + cp div 4096) mod 256
      else (0xF0 + cp div 262144) mod 256)"
  by (simp add: utf8_encode_def of_char_of)

text \<open>The lead byte of an encoded code point tells the length of its encoding.\<close>

lemma seqLen_lead_byte:
  assumes "valid_codepoint cp"
  shows "seqLen (of_char (hd (utf8_encode cp))) = length (utf8_encode cp)"
proof -
  from assms have le: "cp < 1114112" by (simp add: valid_codepoint_def)
  consider "cp < 128" | "128 \<le> cp" "cp < 2048" | "2048 \<le> cp" "cp < 65536" | "65536 \<le> cp"
    by linarith
  then show ?thesis
  proof cases
    case 1
    then have "cp mod 256 = cp" by simp
    with 1 show ?thesis by (simp add: lead_value utf8_encode_length seqLen_1)
  next
    case 2
    then have "cp div 64 < 32" by arith
    then have "(192 + cp div 64) mod 256 = 192 + cp div 64" "192 + cp div 64 < 224"
      by simp_all
    with 2 show ?thesis by (simp add: lead_value utf8_encode_length seqLen_2)
  next
    case 3
    then have "cp div 4096 < 16" by arith
    then have "(224 + cp div 4096) mod 256 = 224 + cp div 4096" "224 + cp div 4096 < 240"
      by simp_all
    with 3 show ?thesis by (simp add: lead_value utf8_encode_length seqLen_3)
  next
    case 4
    from le have "cp div 262144 < 5" by arith
    then have "(240 + cp div 262144) mod 256 = 240 + cp div 262144" by simp
    with 4 show ?thesis by (simp add: lead_value utf8_encode_length seqLen_4)
  qed
qed

lemma lead_not_newline:
  assumes "valid_codepoint cp" and "cp \<noteq> 10"
  shows "hd (utf8_encode cp) \<noteq> CHR 0x0A"
proof
  assume h: "hd (utf8_encode cp) = CHR 0x0A"
  then have v: "(of_char (hd (utf8_encode cp)) :: nat) = 10" by simp
  then have "seqLen (of_char (hd (utf8_encode cp))) = 1" by (simp add: seqLen_def)
  with seqLen_lead_byte[OF assms(1)] have "length (utf8_encode cp) = 1" by simp
  then have small: "cp < 128" by (simp add: utf8_encode_length split: if_splits)
  then have "cp mod 256 = cp" by simp
  with v small have "cp = 10" by (simp add: lead_value)
  with assms(2) show False by simp
qed

text \<open>One turn of the loop over an encoded code point that is not a line feed.\<close>

lemma loop_step:
  assumes v: "valid_codepoint cp" and nl: "cp \<noteq> 10"
    and lt: "utf16Pos < characterArg"
    and at: "take (length (utf8_encode cp)) (drop bytePos s) = utf8_encode cp"
  shows "computeByteOffset_loop s characterArg bytePos utf16Pos =
         computeByteOffset_loop s characterArg (bytePos + length (utf8_encode cp))
           (utf16Pos + units_of cp)"
proof -
  from at utf8_encode_not_Nil[of cp] have inside: "bytePos < length s"
    by (cases "bytePos < length s") auto
  from at inside have lead: "s ! bytePos = hd (utf8_encode cp)"
    by (metis hd_drop_conv_nth hd_take length_greater_0_conv utf8_encode_not_Nil)
  with lead_not_newline[OF v nl] have "s ! bytePos \<noteq> CHR 0x0A" by simp
  with inside lt lead seqLen_lead_byte[OF v] show ?thesis
    by (subst computeByteOffset_loop.simps) (simp add: Let_def utf16Units_def units_of_def)
qed

lemma units_of_pos: "0 < units_of cp"
  by (simp add: units_of_def)

lemma sum_units_nonneg: "0 \<le> sum_list (map units_of cps)"
  by (induction cps) (simp_all add: units_of_def)

text \<open>
  Over a run of encoded code points the loop counts the sum of their units: asked for
  that many columns more, it stops exactly behind the run.
\<close>

lemma loop_codepoints:
  "list_all (\<lambda>cp. valid_codepoint cp \<and> cp \<noteq> 10) cps \<Longrightarrow>
   computeByteOffset_loop (pre @ concat (map utf8_encode cps) @ post)
       (u + sum_list (map units_of cps)) (length pre) u
     = length pre + length (concat (map utf8_encode cps))"
proof (induction cps arbitrary: pre u)
  case Nil
  show ?case by (subst computeByteOffset_loop.simps) simp
next
  case (Cons cp cps)
  let ?s = "pre @ concat (map utf8_encode (cp # cps)) @ post"
  let ?ch = "u + sum_list (map units_of (cp # cps))"
  from Cons.prems have v: "valid_codepoint cp" and nl: "cp \<noteq> 10"
    and rest: "list_all (\<lambda>cp. valid_codepoint cp \<and> cp \<noteq> 10) cps" by simp_all
  have lt: "u < ?ch" using units_of_pos[of cp] sum_units_nonneg[of cps] by simp
  have at: "take (length (utf8_encode cp)) (drop (length pre) ?s) = utf8_encode cp" by simp
  have "computeByteOffset_loop ?s ?ch (length pre) u =
        computeByteOffset_loop ?s ?ch (length pre + length (utf8_encode cp)) (u + units_of cp)"
    by (rule loop_step[OF v nl lt at])
  also have "\<dots> =
        computeByteOffset_loop ((pre @ utf8_encode cp) @ concat (map utf8_encode cps) @ post)
          ((u + units_of cp) + sum_list (map units_of cps))
          (length (pre @ utf8_encode cp)) (u + units_of cp)"
    by (simp add: add.assoc)
  also have "\<dots> = length (pre @ utf8_encode cp) + length (concat (map utf8_encode cps))"
    by (rule Cons.IH[OF rest])
  finally show ?case by simp
qed

text \<open>
  \<^verbatim>\<open>computeByteOffset\<close> on a line that starts behind \<open>pre\<close> and goes on with a run of
  encoded code points: the column that is the sum of their units is the byte offset
  right behind the run.
\<close>

lemma computeByteOffset_codepoints:
  assumes "list_all (\<lambda>cp. valid_codepoint cp \<and> cp \<noteq> 10) cps"
    and "0 \<le> ln"
    and "ln < int (length (computeLineStarts X (pre @ concat (map utf8_encode cps) @ post)))"
    and "computeLineStarts X (pre @ concat (map utf8_encode cps) @ post) ! nat ln = length pre"
  shows "computeByteOffset X (pre @ concat (map utf8_encode cps) @ post) ln
           (sum_list (map units_of cps))
         = Some (length pre + length (concat (map utf8_encode cps)))"
  using loop_codepoints[OF assms(1), of pre post 0] assms(2-4)
  by (simp add: computeByteOffset_def Let_def)

text \<open>
  C7. In the conversion between UTF-8 bytes and UTF-16 columns, every valid code point
  whose UTF-8 encoding has four bytes (the code points from U+10000 on) counts two code
  units, and every other valid code point (one, two or three bytes) counts one: the
  lead byte gives the length of the encoding, the unit count follows from it, and one
  turn of the loop of \<^verbatim>\<open>computeByteOffset\<close> over the encoding advances the byte offset
  by its length and the column by that count. Over a run of code points the counts add
  up.
\<close>

theorem utf16_units_per_codepoint:
  assumes "valid_codepoint cp"
  shows "seqLen (of_char (hd (utf8_encode cp))) = length (utf8_encode cp)
    \<and> utf16Units (seqLen (of_char (hd (utf8_encode cp))))
        = (if length (utf8_encode cp) = 4 then 2 else 1)
    \<and> length (utf8_encode cp) \<in> {1, 2, 3, 4}
    \<and> (length (utf8_encode cp) = 4 \<longleftrightarrow> 0x10000 \<le> cp)
    \<and> (cp \<noteq> 10 \<and> utf16Pos < characterArg
         \<and> take (length (utf8_encode cp)) (drop bytePos s) = utf8_encode cp \<longrightarrow>
         computeByteOffset_loop s characterArg bytePos utf16Pos =
         computeByteOffset_loop s characterArg (bytePos + length (utf8_encode cp))
           (utf16Pos + (if length (utf8_encode cp) = 4 then 2 else 1)))
    \<and> (\<forall>cps pre post u. list_all (\<lambda>c. valid_codepoint c \<and> c \<noteq> 10) cps \<longrightarrow>
         computeByteOffset_loop (pre @ concat (map utf8_encode cps) @ post)
           (u + sum_list (map units_of cps)) (length pre) u
         = length pre + length (concat (map utf8_encode cps)))"
proof -
  have a: "seqLen (of_char (hd (utf8_encode cp))) = length (utf8_encode cp)"
    by (rule seqLen_lead_byte[OF assms])
  have b: "utf16Units (seqLen (of_char (hd (utf8_encode cp))))
        = (if length (utf8_encode cp) = 4 then 2 else 1)"
    by (simp only: a utf16Units_def)
  have c: "length (utf8_encode cp) \<in> {1, 2, 3, 4}"
    by (simp add: utf8_encode_length)
  have d: "length (utf8_encode cp) = 4 \<longleftrightarrow> 0x10000 \<le> cp"
    by (simp add: utf8_encode_length)
  have e: "cp \<noteq> 10 \<and> utf16Pos < characterArg
         \<and> take (length (utf8_encode cp)) (drop bytePos s) = utf8_encode cp \<longrightarrow>
         computeByteOffset_loop s characterArg bytePos utf16Pos =
         computeByteOffset_loop s characterArg (bytePos + length (utf8_encode cp))
           (utf16Pos + (if length (utf8_encode cp) = 4 then 2 else 1))"
    using loop_step[OF assms, of utf16Pos characterArg bytePos s]
    by (simp only: units_of_def) blast
  have f: "\<forall>cps pre post u. list_all (\<lambda>c. valid_codepoint c \<and> c \<noteq> 10) cps \<longrightarrow>
         computeByteOffset_loop (pre @ concat (map utf8_encode cps) @ post)
           (u + sum_list (map units_of cps)) (length pre) u
         = length pre + length (concat (map utf8_encode cps))"
    by (simp add: loop_codepoints)
  from a b c d e f show ?thesis by (intro conjI)
qed

theorem utf16_units_per_codepoint_witness:
  "valid_codepoint 0x1F600 \<and> length (utf8_encode 0x1F600) = 4
   \<and> utf16Units (seqLen (of_char (hd (utf8_encode 0x1F600)))) = 2
   \<and> valid_codepoint 0x8AA4 \<and> length (utf8_encode 0x8AA4) = 3
   \<and> utf16Units (seqLen (of_char (hd (utf8_encode 0x8AA4)))) = 1"
proof -
  have v1: "valid_codepoint 0x1F600" by (simp add: valid_codepoint_def)
  have v2: "valid_codepoint 0x8AA4" by (simp add: valid_codepoint_def)
  have l1: "length (utf8_encode 0x1F600) = 4" by (simp add: utf8_encode_def)
  have l2: "length (utf8_encode 0x8AA4) = 3" by (simp add: utf8_encode_def)
  have "utf16Units (seqLen (of_char (hd (utf8_encode 0x1F600))))
          = (if length (utf8_encode 0x1F600) = 4 then 2 else 1)"
    using utf16_units_per_codepoint [OF v1] by blast
  with l1 have u1: "utf16Units (seqLen (of_char (hd (utf8_encode 0x1F600)))) = 2"
    by simp
  have "utf16Units (seqLen (of_char (hd (utf8_encode 0x8AA4))))
          = (if length (utf8_encode 0x8AA4) = 4 then 2 else 1)"
    using utf16_units_per_codepoint [OF v2] by blast
  with l2 have u2: "utf16Units (seqLen (of_char (hd (utf8_encode 0x8AA4)))) = 1"
    by simp
  from v1 l1 u1 v2 l2 u2 show ?thesis by (intro conjI)
qed

section \<open>Dependency chunks\<close>

lemma chunk_loop_eq:
  "chunk_loop X cs tree i =
     map (\<lambda>k. chunk_record X cs tree k (the (chunks tree ! k))) (present_chunks tree i)"
proof (induction X cs tree i rule: chunk_loop.induct)
  case (1 X cs tree i)
  show ?case
  proof (cases "i < length (chunks tree)")
    case False
    then show ?thesis by (subst chunk_loop.simps) (simp add: present_chunks_def)
  next
    case True
    then have upt: "[i..<length (chunks tree)] = i # [i + 1..<length (chunks tree)]"
      by (simp add: upt_conv_Cons)
    show ?thesis
    proof (cases "chunks tree ! i")
      case None
      with True "1.IH"(1)[OF True None] upt show ?thesis
        by (subst chunk_loop.simps) (simp add: present_chunks_def)
    next
      case (Some chunk)
      with True "1.IH"(2)[OF True Some] upt show ?thesis
        by (subst chunk_loop.simps) (simp add: present_chunks_def)
    qed
  qed
qed

lemma chunk_record_id: "chunkId (chunk_record X cs tree k c) = int k"
  by (simp add: chunk_record_def Let_def)

lemma chunk_loop_ids: "map chunkId (chunk_loop X cs tree i) = map int (present_chunks tree i)"
  by (simp add: chunk_loop_eq chunk_record_id comp_def)

lemma present_chunks_strict: "sorted_wrt (<) (map int (present_chunks tree i))"
proof -
  have "sorted_wrt (<) (present_chunks tree i)"
    unfolding present_chunks_def by (rule sorted_wrt_filter) simp
  then show ?thesis by (simp add: sorted_wrt_map)
qed

lemma present_chunks_all:
  "list_all (\<lambda>c. c \<noteq> None) (chunks tree) \<Longrightarrow>
   present_chunks tree 0 = [0..<length (chunks tree)]"
  by (simp add: present_chunks_def list_all_length)

text \<open>
  C8. \<^verbatim>\<open>analyzeDependencies\<close> returns the empty vector whenever the capability flag is
  off. When the build has the secondary engine, the flag is on, a parser is held and it
  produces a tree, the result is the records of the tree's chunks in the order of the
  engine's chunk indices, each with its index as \<open>chunkId\<close>: the ids are strictly
  increasing, hence distinct, and they are 0, 1, 2, ... up to the chunk count when the
  engine returns no null chunk.
\<close>

theorem analyzeDependencies_chunks:
  fixes A :: "'s Analyzer"
  shows "(\<not> isCaboChaAvailable (mecab_manager A) \<longrightarrow> analyzeDependencies b X A s = [])
   \<and> (b \<and> isCaboChaAvailable (mecab_manager A)
        \<and> getCaboChaParser (mecab_manager A) = Some parser
        \<and> cabocha_sparse_totree parser
            (c_str (utf8ToSystem X (sanitizeUTF8 X s) (Analyzer.system_charset A))) = Some tree
      \<longrightarrow> analyzeDependencies b X A s =
            map (\<lambda>k. chunk_record X (Analyzer.system_charset A) tree k (the (chunks tree ! k)))
              (present_chunks tree 0)
        \<and> map chunkId (analyzeDependencies b X A s) = map int (present_chunks tree 0)
        \<and> sorted_wrt (<) (map chunkId (analyzeDependencies b X A s))
        \<and> distinct (map chunkId (analyzeDependencies b X A s))
        \<and> (list_all (\<lambda>c. c \<noteq> None) (chunks tree) \<longrightarrow>
             map chunkId (analyzeDependencies b X A s) = map int [0..<length (chunks tree)]))"
proof -
  have absent: "\<not> isCaboChaAvailable (mecab_manager A) \<longrightarrow> analyzeDependencies b X A s = []"
    by (simp add: analyzeDependencies_def)
  {
    assume h: "b" "isCaboChaAvailable (mecab_manager A)"
      "getCaboChaParser (mecab_manager A) = Some parser"
      "cabocha_sparse_totree parser
            (c_str (utf8ToSystem X (sanitizeUTF8 X s) (Analyzer.system_charset A))) = Some tree"
    then have run: "analyzeDependencies b X A s = chunk_loop X (Analyzer.system_charset A) tree 0"
      by (simp add: analyzeDependencies_def Let_def)
    have ids: "map chunkId (analyzeDependencies b X A s) = map int (present_chunks tree 0)"
      by (simp only: run chunk_loop_ids)
    have strict: "sorted_wrt (<) (map chunkId (analyzeDependencies b X A s))"
      by (simp only: ids present_chunks_strict)
    then have "distinct (map chunkId (analyzeDependencies b X A s))"
      by (simp add: strict_sorted_iff)
    with run ids strict have
      "analyzeDependencies b X A s =
            map (\<lambda>k. chunk_record X (Analyzer.system_charset A) tree k (the (chunks tree ! k)))
              (present_chunks tree 0)
        \<and> map chunkId (analyzeDependencies b X A s) = map int (present_chunks tree 0)
        \<and> sorted_wrt (<) (map chunkId (analyzeDependencies b X A s))
        \<and> distinct (map chunkId (analyzeDependencies b X A s))
        \<and> (list_all (\<lambda>c. c \<noteq> None) (chunks tree) \<longrightarrow>
             map chunkId (analyzeDependencies b X A s) = map int [0..<length (chunks tree)])"
      by (simp add: chunk_loop_eq present_chunks_all)
  }
  with absent show ?thesis by blast
qed

theorem analyzeDependencies_chunks_witness:
  "isCaboChaAvailable (mecab_manager cabocha_analyzer)
   \<and> map chunkId (analyzeDependencies True ascii_collab cabocha_analyzer ''ab c'') = [0, 2]
   \<and> sorted_wrt (<) (map chunkId (analyzeDependencies True ascii_collab cabocha_analyzer ''ab c''))
   \<and> map text_dep (analyzeDependencies True ascii_collab cabocha_analyzer ''ab c'') = [''ab'', ''c'']"
proof -
  have av: "isCaboChaAvailable (mecab_manager cabocha_analyzer)"
    by (simp add: isCaboChaAvailable_def cabocha_analyzer_def)
  have p: "getCaboChaParser (mecab_manager cabocha_analyzer)
             = Some \<lparr>cabocha_sparse_totree = (\<lambda>s. Some sample_tree)\<rparr>"
    by (simp add: getCaboChaParser_def cabocha_analyzer_def)
  have t: "cabocha_sparse_totree \<lparr>cabocha_sparse_totree = (\<lambda>s. Some sample_tree)\<rparr>
             (c_str (utf8ToSystem ascii_collab (sanitizeUTF8 ascii_collab ''ab c'')
                (Analyzer.system_charset cabocha_analyzer))) = Some sample_tree"
    by simp
  have ids: "map chunkId (analyzeDependencies True ascii_collab cabocha_analyzer ''ab c'') = [0, 2]"
    by code_simp
  have txts: "map text_dep (analyzeDependencies True ascii_collab cabocha_analyzer ''ab c'') = [''ab'', ''c'']"
    by code_simp
  have strict: "sorted_wrt (<)
      (map chunkId (analyzeDependencies True ascii_collab cabocha_analyzer ''ab c''))"
    using analyzeDependencies_chunks [of cabocha_analyzer True ascii_collab "''ab c''"
        "\<lparr>cabocha_sparse_totree = (\<lambda>s. Some sample_tree)\<rparr>" sample_tree] av p t
    by blast
  from av ids strict txts show ?thesis by (intro conjI)
qed

end
